theory Spec2Isabelle
  imports Complex_Main
begin

section \<open>Data model\<close>

text \<open>
  The program is one Python script, \<^verbatim>\<open>src/app.py\<close>: a Streamlit page whose button
  handler fetches a price table, tests the closing prices for stationarity, fits an
  ARIMA model, forecasts, and renders a chart and a table. The statistics, the download
  and the widgets are third-party libraries; the script is the order of the calls, the
  arguments it passes, the branch on an empty table, the threshold on the p-value and the
  construction of the forecast dates.

  A float64 cell is either missing (NaN) or a number. Numbers are modelled as reals.
  The only arithmetic the script itself does on floats is the comparison
  \<^verbatim>\<open>p_value < 0.05\<close>; the double nearest to 0.05 lies just above it and no double
  lies between the two, so over doubles the comparison agrees with the one on reals.
  Every comparison with NaN is false, as in Python.
\<close>

datatype pyfloat = NaN | Fin real

definition float_lt :: "pyfloat \<Rightarrow> pyfloat \<Rightarrow> bool" where
  "float_lt a b = (case a of NaN \<Rightarrow> False
                   | Fin x \<Rightarrow> (case b of NaN \<Rightarrow> False | Fin y \<Rightarrow> x < y))"

text \<open>
  A date is its proleptic Gregorian ordinal (\<^verbatim>\<open>date.toordinal()\<close>: day 1 is
  0001-01-01, a Monday). \<^verbatim>\<open>weekday()\<close> is Monday = 0 ... Sunday = 6.
\<close>

type_synonym date = int

definition weekday :: "date \<Rightarrow> int" where
  "weekday d = (d + 6) mod 7"

text \<open>
  One row of the table \<^verbatim>\<open>yf.download\<close> returns, after \<^verbatim>\<open>reset_index()\<close> has moved
  the date index into the column \<^verbatim>\<open>Date\<close>. A data frame is the list of its rows in
  index order; \<^verbatim>\<open>df.empty\<close> is \<open>df = []\<close>, \<^verbatim>\<open>df["Close"]\<close> is the list of the
  \<open>Close\<close> fields.
\<close>

record row =
  Date :: date
  Open :: pyfloat
  High :: pyfloat
  Low :: pyfloat
  Close :: pyfloat
  Volume :: pyfloat

type_synonym dataframe = "row list"

text \<open>A raised Python exception: its class name and its message.\<close>

datatype exn = PyExn string string

text \<open>
  The tuple \<^verbatim>\<open>adfuller\<close> returns; \<^verbatim>\<open>result[1]\<close> is the field \<open>pvalue\<close>. The
  critical values and the information criterion (components 4 and 5) are never read and
  are left out.
\<close>

record adf_result =
  adfstat :: pyfloat
  pvalue :: pyfloat
  usedlag :: nat
  nobs :: nat

text \<open>
  The libraries the script calls are parameters of the model: the code of yfinance and
  statsmodels is not part of the program. \<open>'m\<close> is the type of an unfitted model
  object, \<open>'f\<close> of a fitted one. A library call either returns or raises.
\<close>

record ('m, 'f) library =
  yf_download :: "string \<Rightarrow> date \<Rightarrow> date \<Rightarrow> dataframe"
  adfuller :: "pyfloat list \<Rightarrow> exn + adf_result"
  ARIMA :: "pyfloat list \<Rightarrow> nat \<times> nat \<times> nat \<Rightarrow> exn + 'm"
  fit :: "'m \<Rightarrow> exn + 'f"
  forecast :: "'f \<Rightarrow> nat \<Rightarrow> exn + pyfloat list"

text \<open>
  The inputs of one run: the three widgets and \<^verbatim>\<open>dt.date.today()\<close>. The number
  input is created with integer bounds 5 and 60, so \<open>forecast_days\<close> is a natural
  number.
\<close>

record query =
  ticker :: string
  start_date :: date
  end_date :: date
  forecast_days :: nat

text \<open>One \<^verbatim>\<open>go.Scatter\<close> trace and the figure that holds the traces.\<close>

record trace =
  trace_x :: "date list"
  trace_y :: "pyfloat list"
  trace_mode :: string
  trace_name :: string
  line_color :: string
  line_width :: nat
  line_dash :: "string option"
  marker_size :: "nat option"

record figure =
  traces :: "trace list"
  title :: string
  template :: string
  xaxis_title :: string
  yaxis_title :: string
  hovermode :: string

section \<open>Effects\<close>

text \<open>
  What a run does that can be observed: the calls into the libraries, with their
  arguments, and the elements it puts on the page. The spinners are transient and leave
  nothing on the page; they are not events.
\<close>

datatype event =
    Call_download string date date
  | St_error string
  | St_subheader string
  | Call_adfuller "pyfloat list"
  | St_info string
  | Call_ARIMA "pyfloat list" "nat \<times> nat \<times> nat"
  | Call_fit
  | Call_forecast nat
  | Call_date_range date nat
  | St_plotly_chart figure
  | St_dataframe dataframe

text \<open>
  A computation yields the events it performed, in order, and either the exception that
  ended it or its value. The script has no \<^verbatim>\<open>try\<close>: an exception ends the run where
  it is raised.
\<close>

type_synonym 'a comp = "event list \<times> (exn + 'a)"

definition ret :: "'a \<Rightarrow> 'a comp" where
  "ret x = ([], Inr x)"

definition emit :: "event \<Rightarrow> unit comp" where
  "emit ev = ([ev], Inr ())"

definition call :: "event \<Rightarrow> exn + 'a \<Rightarrow> 'a comp" where
  "call ev r = ([ev], r)"

definition lift :: "exn + 'a \<Rightarrow> 'a comp" where
  "lift r = ([], r)"

definition and_then :: "'a comp \<Rightarrow> ('a \<Rightarrow> 'b comp) \<Rightarrow> 'b comp" where
  "and_then m k =
     (case snd m of
        Inl e \<Rightarrow> (fst m, Inl e)
      | Inr x \<Rightarrow> (fst m @ fst (k x), snd (k x)))"

section \<open>The script\<close>

subsection \<open>String constants\<close>

text \<open>
  Strings are byte lists; the emoji and the dash of the source are their UTF-8 bytes.
\<close>

definition NO_DATA_MSG :: string where
  "NO_DATA_MSG = [CHR 0xE2, CHR 0x9A, CHR 0xA0, CHR 0xEF, CHR 0xB8, CHR 0x8F]
     @ '' No data found. Check stock symbol.''"

definition STATIONARY_MSG :: string where
  "STATIONARY_MSG = [CHR 0xE2, CHR 0x9C, CHR 0x94, CHR 0xEF, CHR 0xB8, CHR 0x8F]
     @ '' The series is *Stationary* (ADF p-value < 0.05)''"

definition NOT_STATIONARY_MSG :: string where
  "NOT_STATIONARY_MSG = [CHR 0xE2, CHR 0x9D, CHR 0x8C]
     @ '' The series is *Not Stationary* (ADF p-value >= 0.05)''"

definition ADF_HEADER :: string where
  "ADF_HEADER = [CHR 0xF0, CHR 0x9F, CHR 0x93, CHR 0x8C] @ '' Stationarity Test (ADF)''"

definition DATA_HEADER :: string where
  "DATA_HEADER = [CHR 0xF0, CHR 0x9F, CHR 0x93, CHR 0x84] @ '' Data Used''"

definition chart_title :: "string \<Rightarrow> string" where
  "chart_title tk = tk @ '' '' @ [CHR 0xE2, CHR 0x80, CHR 0x94]
     @ '' Actual vs Forecasted Prices''"

subsection \<open>Stationarity check\<close>

text \<open>\<^verbatim>\<open>Series.dropna()\<close>: the non-missing cells, in order.\<close>

definition dropna :: "pyfloat list \<Rightarrow> pyfloat list" where
  "dropna s = filter (\<lambda>x. x \<noteq> NaN) s"

text \<open>
  \<^verbatim>\<open>
  def check_stationarity(series):
      result = adfuller(series.dropna())
      p_value = result[1]
      if p_value < 0.05:
          return "... The series is *Stationary* (ADF p-value < 0.05)"
      else:
          return "... The series is *Not Stationary* (ADF p-value >= 0.05)"
  \<close>
\<close>

definition check_stationarity :: "('m, 'f) library \<Rightarrow> pyfloat list \<Rightarrow> string comp" where
  "check_stationarity lib series =
     and_then (call (Call_adfuller (dropna series)) (adfuller lib (dropna series)))
       (\<lambda>result.
          let p_value = pvalue result in
          if float_lt p_value (Fin 0.05) then ret STATIONARY_MSG
          else ret NOT_STATIONARY_MSG)"

subsection \<open>Forecast dates\<close>

text \<open>
  \<^verbatim>\<open>pd.date_range(start=s, periods=n, freq="B")\<close>, by the semantics of pandas: the
  start is rolled forward to a business day (Saturday and Sunday go to Monday), and
  each further date is the next business day. There is no holiday calendar.
\<close>

definition rollforward :: "date \<Rightarrow> date" where
  "rollforward d =
     (if weekday d = 5 then d + 2 else if weekday d = 6 then d + 1 else d)"

fun date_range_B :: "date \<Rightarrow> nat \<Rightarrow> date list" where
  "date_range_B start 0 = []"
| "date_range_B start (Suc n) =
     (let d = rollforward start in d # date_range_B (d + 1) n)"

text \<open>\<^verbatim>\<open>s.iloc[-1]\<close>: the last element; IndexError on an empty column.\<close>

definition iloc_last :: "'a list \<Rightarrow> exn + 'a" where
  "iloc_last xs =
     (if xs = [] then Inl (PyExn ''IndexError'' ''single positional indexer is out-of-bounds'')
      else Inr (last xs))"

text \<open>
  \<^verbatim>\<open>
  forecast_dates = pd.date_range(
      start=df["Date"].iloc[-1], periods=forecast_days + 1, freq="B")[1:]
  \<close>
  The slice \<^verbatim>\<open>[1:]\<close> drops the first element and is empty on an empty index.
\<close>

definition forecast_dates :: "dataframe \<Rightarrow> nat \<Rightarrow> (date list) comp" where
  "forecast_dates df days =
     and_then (lift (iloc_last (map Date df)))
       (\<lambda>start.
          and_then (call (Call_date_range start (days + 1))
                      (Inr (date_range_B start (days + 1))))
            (\<lambda>rng. ret (tl rng)))"

subsection \<open>Chart\<close>

text \<open>
  \<^verbatim>\<open>go.Figure()\<close>, the two \<^verbatim>\<open>add_trace\<close> calls and \<^verbatim>\<open>update_layout\<close>. The
  legend, colours of the background and margins are constants of the layout and are
  left out.
\<close>

definition build_figure :: "string \<Rightarrow> dataframe \<Rightarrow> date list \<Rightarrow> pyfloat list \<Rightarrow> figure" where
  "build_figure tk df fdates fc =
     \<lparr> traces =
         [ \<lparr> trace_x = map Date df, trace_y = map Close df, trace_mode = ''lines'',
             trace_name = ''Actual Price'', line_color = ''#00A8E8'', line_width = 3,
             line_dash = None, marker_size = None \<rparr>,
           \<lparr> trace_x = fdates, trace_y = fc, trace_mode = ''lines+markers'',
             trace_name = ''Forecast'', line_color = ''#FF4C61'', line_width = 3,
             line_dash = Some ''dash'', marker_size = Some 6 \<rparr> ],
       title = chart_title tk,
       template = ''plotly_dark'',
       xaxis_title = ''Date'',
       yaxis_title = ''Close Price'',
       hovermode = ''x'' \<rparr>"

subsection \<open>The button handler\<close>

text \<open>
  What the variables of a finished run hold: nothing beyond the empty table, or the
  forecast and its dates.
\<close>

datatype outcome = No_data | Rendered "pyfloat list" "date list"

text \<open>
  The body of \<^verbatim>\<open>if st.button(...)\<close>, statement by statement:
  \<^verbatim>\<open>
  df = yf.download(ticker, start=start_date, end=end_date)
  if df.empty:
      st.error("... No data found. Check stock symbol.")
  else:
      df = df.reset_index()
      st.subheader("... Stationarity Test (ADF)")
      st.info(check_stationarity(df["Close"]))
      model = ARIMA(df["Close"], order=(5,0,0))
      model_fit = model.fit()
      forecast = model_fit.forecast(steps=forecast_days)
      forecast_dates = pd.date_range(...)[1:]
      fig = ...
      st.plotly_chart(fig, use_container_width=True)
      st.subheader("... Data Used")
      st.dataframe(df)
  \<close>
\<close>

text \<open>
  The handler is one block of statements. It is split here into the model step (the
  \<^verbatim>\<open>ARIMA\<close> constructor, \<^verbatim>\<open>fit\<close> and \<^verbatim>\<open>forecast\<close>), the rendering (chart,
  subheader, table) and the whole, in the order of the source.
\<close>

definition forecaster :: "('m, 'f) library \<Rightarrow> pyfloat list \<Rightarrow> nat \<Rightarrow> (pyfloat list) comp" where
  "forecaster lib closes days =
     and_then (call (Call_ARIMA closes (5, 0, 0)) (ARIMA lib closes (5, 0, 0)))
       (\<lambda>model.
     and_then (call Call_fit (fit lib model))
       (\<lambda>model_fit.
     call (Call_forecast days) (forecast lib model_fit days)))"

definition present :: "string \<Rightarrow> dataframe \<Rightarrow> date list \<Rightarrow> pyfloat list \<Rightarrow> unit comp" where
  "present tk df fdates fc =
     and_then (emit (St_plotly_chart (build_figure tk df fdates fc)))
       (\<lambda>_.
     and_then (emit (St_subheader DATA_HEADER))
       (\<lambda>_.
     emit (St_dataframe df)))"

definition run :: "('m, 'f) library \<Rightarrow> query \<Rightarrow> outcome comp" where
  "run lib q =
     and_then (call (Call_download (ticker q) (start_date q) (end_date q))
                 (Inr (yf_download lib (ticker q) (start_date q) (end_date q))))
       (\<lambda>df.
     if df = [] then
       and_then (emit (St_error NO_DATA_MSG)) (\<lambda>_. ret No_data)
     else
       and_then (emit (St_subheader ADF_HEADER))
         (\<lambda>_.
       and_then (check_stationarity lib (map Close df))
         (\<lambda>verdict.
       and_then (emit (St_info verdict))
         (\<lambda>_.
       and_then (forecaster lib (map Close df) (forecast_days q))
         (\<lambda>fc.
       and_then (forecast_dates df (forecast_days q))
         (\<lambda>fdates.
       and_then (present (ticker q) df fdates fc)
         (\<lambda>_.
       ret (Rendered fc fdates))))))))"

text \<open>The script: the handler runs when the button was pressed, and only then.\<close>

definition app :: "('m, 'f) library \<Rightarrow> bool \<Rightarrow> query \<Rightarrow> (outcome option) comp" where
  "app lib pressed q =
     (if pressed then and_then (run lib q) (\<lambda>r. ret (Some r)) else ret None)"


subsection \<open>Reading a run\<close>

text \<open>The forecast values a run ended with, if it got that far.\<close>

definition forecast_values :: "outcome comp \<Rightarrow> (pyfloat list) option" where
  "forecast_values c =
     (case snd c of
        Inl e \<Rightarrow> None
      | Inr No_data \<Rightarrow> None
      | Inr (Rendered fc fdates) \<Rightarrow> Some fc)"


text \<open>The steps after the fetch: everything but the download and the error message.\<close>

fun is_pipeline_step :: "event \<Rightarrow> bool" where
  "is_pipeline_step (Call_download _ _ _) = False"
| "is_pipeline_step (St_error _) = False"
| "is_pipeline_step _ = True"



fun is_error_message :: "event \<Rightarrow> bool" where
  "is_error_message (St_error _) = True"
| "is_error_message _ = False"

text \<open>The message \<^verbatim>\<open>check_stationarity\<close> returns for a test result.\<close>

definition verdict :: "adf_result \<Rightarrow> string" where
  "verdict r = (if float_lt (pvalue r) (Fin 0.05) then STATIONARY_MSG else NOT_STATIONARY_MSG)"

text \<open>The table a run fetches.\<close>

definition fetched :: "('m, 'f) library \<Rightarrow> query \<Rightarrow> dataframe" where
  "fetched lib q = yf_download lib (ticker q) (start_date q) (end_date q)"

subsection \<open>Assumptions on the libraries\<close>

text \<open>
  What statsmodels documents for \<^verbatim>\<open>forecast(steps=n)\<close>: the result has one value
  per step. The script does not check it.
\<close>

definition forecast_returns_steps :: "('m, 'f) library \<Rightarrow> bool" where
  "forecast_returns_steps lib = (\<forall>f n ys. forecast lib f n = Inr ys \<longrightarrow> length ys = n)"


section \<open>A small library instance\<close>

text \<open>
  The theorems below hold for every library. To evaluate them on concrete runs, here is
  one instance: a provider that knows three tickers, a unit-root test that refuses fewer
  than four observations and otherwise reports the p-value it is given, and a model that
  refuses fewer than eight observations and otherwise repeats the last one.
\<close>

definition mk_row :: "date \<Rightarrow> real \<Rightarrow> row" where
  "mk_row d c = \<lparr> Date = d, Open = Fin c, High = Fin (c + 1), Low = Fin (c - 1),
                  Close = Fin c, Volume = Fin 1000 \<rparr>"

definition long_rows :: dataframe where
  "long_rows = [mk_row 738886 100, mk_row 738887 101, mk_row 738888 102, mk_row 738889 103,
                mk_row 738890 104, mk_row 738893 105, mk_row 738894 106, mk_row 738895 107]"

definition other_rows :: dataframe where
  "other_rows = map (\<lambda>r. r\<lparr> Date := Date r + 7, Open := Fin 1, Volume := NaN \<rparr>) long_rows"

definition short_rows :: dataframe where
  "short_rows = [mk_row 738886 100, mk_row 738887 101, mk_row 738888 102, mk_row 738889 103,
                 mk_row 738890 104]"

definition demo_download :: "string \<Rightarrow> date \<Rightarrow> date \<Rightarrow> dataframe" where
  "demo_download tk s e =
     (if tk = ''LONG'' then long_rows
      else if tk = ''OTHER'' then other_rows
      else if tk = ''SHORT'' then short_rows
      else if tk = ''ONE'' then [mk_row 738886 100]
      else [])"

definition TOO_SHORT :: exn where
  "TOO_SHORT = PyExn ''ValueError''
     ''sample size is too short to use selected regression component''"

definition FIT_FAILED :: exn where
  "FIT_FAILED = PyExn ''LinAlgError'' ''Schur decomposition solver error.''"

definition demo_adfuller :: "pyfloat \<Rightarrow> pyfloat list \<Rightarrow> exn + adf_result" where
  "demo_adfuller p xs =
     (if length xs < 4 then Inl TOO_SHORT
      else Inr \<lparr> adfstat = Fin 0, pvalue = p, usedlag = 0, nobs = length xs - 1 \<rparr>)"

definition demo_fit :: "pyfloat list \<Rightarrow> exn + pyfloat" where
  "demo_fit xs = (if length xs < 8 then Inl FIT_FAILED else Inr (last xs))"

definition demo_lib :: "pyfloat \<Rightarrow> (pyfloat list, pyfloat) library" where
  "demo_lib p =
     \<lparr> yf_download = demo_download,
       adfuller = demo_adfuller p,
       ARIMA = (\<lambda>xs order. Inr xs),
       fit = demo_fit,
       forecast = (\<lambda>f n. Inr (replicate n f)) \<rparr>"

definition demo_query :: "string \<Rightarrow> nat \<Rightarrow> query" where
  "demo_query tk days =
     \<lparr> ticker = tk, start_date = 738886, end_date = 738900, forecast_days = days \<rparr>"

text \<open>
  A second instance: it raises another exception when the fit fails and forecasts
  nothing at horizons other than 5. Where the fit succeeds and the horizon is 5 it
  answers as the first one.
\<close>

definition demo_lib2 :: "pyfloat \<Rightarrow> (pyfloat list, pyfloat) library" where
  "demo_lib2 p =
     (demo_lib p)\<lparr> fit := (\<lambda>xs. if length xs < 8 then Inl TOO_SHORT else Inr (last xs)),
                   forecast := (\<lambda>f n. if n = 5 then Inr (replicate n f) else Inr []) \<rparr>"

section \<open>Properties\<close>

subsection \<open>Sequencing\<close>

lemma and_then_raise: "snd m = Inl e \<Longrightarrow> and_then m k = (fst m, Inl e)"
  by (simp add: and_then_def)

lemma and_then_value: "snd m = Inr x \<Longrightarrow> and_then m k = (fst m @ fst (k x), snd (k x))"
  by (simp add: and_then_def)

lemma and_then_pair_Inl: "and_then (es, Inl e) k = (es, Inl e)"
  by (simp add: and_then_def)

lemma and_then_pair_Inr: "and_then (es, Inr x) k = (es @ fst (k x), snd (k x))"
  by (simp add: and_then_def)

lemmas comp_simps = and_then_pair_Inl and_then_pair_Inr ret_def emit_def call_def lift_def

subsection \<open>The stationarity check, case by case\<close>

lemma dropna_no_NaN: "NaN \<notin> set (dropna s)"
  by (simp add: dropna_def)

lemma check_stationarity_raises:
  "adfuller lib (dropna s) = Inl e \<Longrightarrow>
   check_stationarity lib s = ([Call_adfuller (dropna s)], Inl e)"
  by (simp add: check_stationarity_def comp_simps)

lemma check_stationarity_returns:
  "adfuller lib (dropna s) = Inr r \<Longrightarrow>
   check_stationarity lib s = ([Call_adfuller (dropna s)], Inr (verdict r))"
  by (simp add: check_stationarity_def verdict_def comp_simps Let_def)

lemma messages_differ: "STATIONARY_MSG \<noteq> NOT_STATIONARY_MSG"
  by (simp add: STATIONARY_MSG_def NOT_STATIONARY_MSG_def)

subsection \<open>The forecast dates\<close>

lemma weekday_range: "0 \<le> weekday d \<and> weekday d < 7"
  by (simp add: weekday_def)

lemma rollforward_ge: "d \<le> rollforward d"
  by (simp add: rollforward_def)

lemma rollforward_weekday: "weekday (rollforward d) < 5"
  unfolding rollforward_def weekday_def by presburger

lemma length_date_range_B: "length (date_range_B s n) = n"
  by (induction n arbitrary: s) (simp_all add: Let_def)

lemma date_range_B_ge: "d \<in> set (date_range_B s n) \<Longrightarrow> s \<le> d"
proof (induction n arbitrary: s)
  case 0
  then show ?case by simp
next
  case (Suc n)
  have "d = rollforward s \<or> d \<in> set (date_range_B (rollforward s + 1) n)"
    using Suc.prems by (simp add: Let_def)
  then show ?case
  proof
    assume "d = rollforward s"
    then show ?thesis using rollforward_ge [of s] by simp
  next
    assume "d \<in> set (date_range_B (rollforward s + 1) n)"
    then have "rollforward s + 1 \<le> d" by (rule Suc.IH)
    then show ?thesis using rollforward_ge [of s] by linarith
  qed
qed

lemma date_range_B_weekday: "d \<in> set (date_range_B s n) \<Longrightarrow> weekday d < 5"
  by (induction n arbitrary: s) (auto simp: Let_def rollforward_weekday)

lemma date_range_B_increasing: "sorted_wrt (<) (date_range_B s n)"
proof (induction n arbitrary: s)
  case 0
  then show ?case by simp
next
  case (Suc n)
  have "\<forall>d \<in> set (date_range_B (rollforward s + 1) n). rollforward s < d"
    using date_range_B_ge [of _ "rollforward s + 1" n] by force
  then show ?case using Suc.IH by (simp add: Let_def)
qed

lemma tl_date_range_B_after:
  "d \<in> set (tl (date_range_B s (Suc n))) \<Longrightarrow> s < d"
proof -
  assume "d \<in> set (tl (date_range_B s (Suc n)))"
  then have "d \<in> set (date_range_B (rollforward s + 1) n)" by (simp add: Let_def)
  then have "rollforward s + 1 \<le> d" by (rule date_range_B_ge)
  then show "s < d" using rollforward_ge [of s] by linarith
qed

lemma forecast_dates_eq:
  "df \<noteq> [] \<Longrightarrow>
   forecast_dates df h =
     ([Call_date_range (Date (last df)) (h + 1)],
      Inr (tl (date_range_B (Date (last df)) (h + 1))))"
  by (simp add: forecast_dates_def iloc_last_def comp_simps last_map)

subsection \<open>The run, case by case\<close>


lemma forecaster_ARIMA_raises:
  "ARIMA lib c (5, 0, 0) = Inl e \<Longrightarrow>
   forecaster lib c h = ([Call_ARIMA c (5, 0, 0)], Inl e)"
  by (simp add: forecaster_def comp_simps)

lemma forecaster_fit_raises:
  "ARIMA lib c (5, 0, 0) = Inr m \<Longrightarrow> fit lib m = Inl e \<Longrightarrow>
   forecaster lib c h = ([Call_ARIMA c (5, 0, 0), Call_fit], Inl e)"
  by (simp add: forecaster_def comp_simps)

lemma forecaster_fitted:
  "ARIMA lib c (5, 0, 0) = Inr m \<Longrightarrow> fit lib m = Inr f \<Longrightarrow>
   forecaster lib c h =
     ([Call_ARIMA c (5, 0, 0), Call_fit, Call_forecast h], forecast lib f h)"
  by (simp add: forecaster_def comp_simps)

lemma forecaster_cases:
  "(\<exists>e. ARIMA lib c (5, 0, 0) = Inl e \<and>
        forecaster lib c h = ([Call_ARIMA c (5, 0, 0)], Inl e))
   \<or> (\<exists>m e. ARIMA lib c (5, 0, 0) = Inr m \<and> fit lib m = Inl e \<and>
        forecaster lib c h = ([Call_ARIMA c (5, 0, 0), Call_fit], Inl e))
   \<or> (\<exists>m f. ARIMA lib c (5, 0, 0) = Inr m \<and> fit lib m = Inr f \<and>
        forecaster lib c h =
          ([Call_ARIMA c (5, 0, 0), Call_fit, Call_forecast h], forecast lib f h))"
proof (cases "ARIMA lib c (5, 0, 0)")
  case (Inl e)
  then show ?thesis by (simp add: forecaster_ARIMA_raises)
next
  case (Inr m)
  then show ?thesis
    by (cases "fit lib m") (simp_all add: forecaster_fit_raises forecaster_fitted)
qed

lemma present_eq:
  "present tk df ds fc =
     ([St_plotly_chart (build_figure tk df ds fc), St_subheader DATA_HEADER, St_dataframe df],
      Inr ())"
  by (simp add: present_def comp_simps)

lemma run_no_data:
  "fetched lib q = [] \<Longrightarrow>
   run lib q =
     ([Call_download (ticker q) (start_date q) (end_date q), St_error NO_DATA_MSG],
      Inr No_data)"
  by (simp add: run_def fetched_def comp_simps)

lemma run_adfuller_raises:
  "fetched lib q \<noteq> [] \<Longrightarrow>
   adfuller lib (dropna (map Close (fetched lib q))) = Inl e \<Longrightarrow>
   run lib q =
     ([Call_download (ticker q) (start_date q) (end_date q), St_subheader ADF_HEADER,
       Call_adfuller (dropna (map Close (fetched lib q)))],
      Inl e)"
  by (simp add: run_def fetched_def comp_simps check_stationarity_raises)

lemma run_forecaster_raises:
  "fetched lib q \<noteq> [] \<Longrightarrow>
   adfuller lib (dropna (map Close (fetched lib q))) = Inr r \<Longrightarrow>
   snd (forecaster lib (map Close (fetched lib q)) (forecast_days q)) = Inl e \<Longrightarrow>
   run lib q =
     ([Call_download (ticker q) (start_date q) (end_date q), St_subheader ADF_HEADER,
       Call_adfuller (dropna (map Close (fetched lib q))), St_info (verdict r)]
      @ fst (forecaster lib (map Close (fetched lib q)) (forecast_days q)),
      Inl e)"
  by (simp add: run_def fetched_def comp_simps check_stationarity_returns and_then_raise)

lemma run_rendered:
  "fetched lib q \<noteq> [] \<Longrightarrow>
   adfuller lib (dropna (map Close (fetched lib q))) = Inr r \<Longrightarrow>
   snd (forecaster lib (map Close (fetched lib q)) (forecast_days q)) = Inr fc \<Longrightarrow>
   run lib q =
     ([Call_download (ticker q) (start_date q) (end_date q), St_subheader ADF_HEADER,
       Call_adfuller (dropna (map Close (fetched lib q))), St_info (verdict r)]
      @ fst (forecaster lib (map Close (fetched lib q)) (forecast_days q))
      @ [Call_date_range (Date (last (fetched lib q))) (forecast_days q + 1),
         St_plotly_chart (build_figure (ticker q) (fetched lib q)
           (tl (date_range_B (Date (last (fetched lib q))) (forecast_days q + 1))) fc),
         St_subheader DATA_HEADER, St_dataframe (fetched lib q)],
      Inr (Rendered fc (tl (date_range_B (Date (last (fetched lib q))) (forecast_days q + 1)))))"
  by (simp add: run_def fetched_def comp_simps check_stationarity_returns and_then_value
      forecast_dates_eq present_eq)

lemma length_tl_date_range_B: "length (tl (date_range_B s (h + 1))) = h"
  by (simp add: length_date_range_B del: date_range_B.simps)

lemma tl_date_range_B_increasing: "sorted_wrt (<) (tl (date_range_B s n))"
  using date_range_B_increasing [of s n] by (cases "date_range_B s n") simp_all

lemma tl_date_range_B_weekday: "d \<in> set (tl (date_range_B s n)) \<Longrightarrow> weekday d < 5"
  using date_range_B_weekday [of d s n] by (cases "date_range_B s n") simp_all

subsection \<open>The forecasting step\<close>



lemma forecaster_no_error_message: "filter is_error_message (fst (forecaster lib c h)) = []"
  using forecaster_cases [of lib c h] by auto



subsection \<open>What a run shows and returns\<close>

lemma app_not_pressed: "app lib False q = ([], Inr None)"
  by (simp add: app_def ret_def)


lemma forecast_values_run:
  "forecast_values (run lib q) =
     (if fetched lib q = [] then None
      else case adfuller lib (dropna (map Close (fetched lib q))) of
             Inl e \<Rightarrow> None
           | Inr r \<Rightarrow>
               (case snd (forecaster lib (map Close (fetched lib q)) (forecast_days q)) of
                  Inl e \<Rightarrow> None
                | Inr fc \<Rightarrow> Some fc))"
proof (cases "fetched lib q = []")
  case True
  then show ?thesis using run_no_data [OF True] by (simp add: forecast_values_def)
next
  case ne: False
  show ?thesis
  proof (cases "adfuller lib (dropna (map Close (fetched lib q)))")
    case (Inl e)
    then show ?thesis
      using ne run_adfuller_raises [OF ne Inl] by (simp add: forecast_values_def)
  next
    case (Inr r)
    show ?thesis
    proof (cases "snd (forecaster lib (map Close (fetched lib q)) (forecast_days q))")
      case (Inl e)
      then show ?thesis
        using ne Inr run_forecaster_raises [OF ne Inr Inl] by (simp add: forecast_values_def)
    next
      case fc: (Inr fc)
      then show ?thesis
        using ne Inr run_rendered [OF ne Inr fc] by (simp add: forecast_values_def)
    qed
  qed
qed


subsection \<open>Concrete runs of the small instance\<close>

lemma demo_fetched [simp]:
  "fetched (demo_lib p) (demo_query ''NONE'' h) = []"
  "fetched (demo_lib p) (demo_query ''ONE'' h) = [mk_row 738886 100]"
  "fetched (demo_lib p) (demo_query ''SHORT'' h) = short_rows"
  "fetched (demo_lib p) (demo_query ''LONG'' h) = long_rows"
  "fetched (demo_lib p) (demo_query ''OTHER'' h) = other_rows"
  by (simp_all add: fetched_def demo_lib_def demo_query_def demo_download_def)

lemma demo_query_sel [simp]:
  "ticker (demo_query tk h) = tk" "start_date (demo_query tk h) = 738886"
  "end_date (demo_query tk h) = 738900" "forecast_days (demo_query tk h) = h"
  by (simp_all add: demo_query_def)

lemma demo_lib_sel [simp]:
  "adfuller (demo_lib p) = demo_adfuller p"
  "ARIMA (demo_lib p) = (\<lambda>xs order. Inr xs)"
  "fit (demo_lib p) = demo_fit"
  "forecast (demo_lib p) = (\<lambda>f n. Inr (replicate n f))"
  by (simp_all add: demo_lib_def)

lemma demo_lib2_sel [simp]:
  "yf_download (demo_lib2 p) = demo_download"
  "adfuller (demo_lib2 p) = demo_adfuller p"
  "ARIMA (demo_lib2 p) = (\<lambda>xs order. Inr xs)"
  "fit (demo_lib2 p) = (\<lambda>xs. if length xs < 8 then Inl TOO_SHORT else Inr (last xs))"
  "forecast (demo_lib2 p) = (\<lambda>f n. if n = 5 then Inr (replicate n f) else Inr [])"
  by (simp_all add: demo_lib2_def demo_lib_def)

lemma demo_fetched2 [simp]:
  "fetched (demo_lib2 p) (demo_query ''LONG'' h) = long_rows"
  by (simp add: fetched_def demo_download_def)

lemma demo_closes [simp]:
  "map Close [mk_row 738886 100] = [Fin 100]"
  "map Close short_rows = [Fin 100, Fin 101, Fin 102, Fin 103, Fin 104]"
  "map Close long_rows =
     [Fin 100, Fin 101, Fin 102, Fin 103, Fin 104, Fin 105, Fin 106, Fin 107]"
  "map Close other_rows =
     [Fin 100, Fin 101, Fin 102, Fin 103, Fin 104, Fin 105, Fin 106, Fin 107]"
  by (simp_all add: short_rows_def long_rows_def other_rows_def mk_row_def)

lemma demo_rows_nonempty [simp]: "short_rows \<noteq> []" "long_rows \<noteq> []" "other_rows \<noteq> []"
  by (simp_all add: short_rows_def long_rows_def other_rows_def)

lemma demo_last_dates [simp]:
  "Date (last long_rows) = 738895" "Date (last other_rows) = 738902"
  by (simp_all add: long_rows_def other_rows_def mk_row_def)

lemma demo_adfuller_long:
  "demo_adfuller p (dropna [Fin 100, Fin 101, Fin 102, Fin 103, Fin 104, Fin 105, Fin 106, Fin 107])
     = Inr \<lparr> adfstat = Fin 0, pvalue = p, usedlag = 0, nobs = 7 \<rparr>"
  by (simp add: dropna_def demo_adfuller_def)


lemma demo_forecaster_long:
  "forecaster (demo_lib p) [Fin 100, Fin 101, Fin 102, Fin 103, Fin 104, Fin 105, Fin 106, Fin 107] 5
     = ([Call_ARIMA [Fin 100, Fin 101, Fin 102, Fin 103, Fin 104, Fin 105, Fin 106, Fin 107] (5, 0, 0),
         Call_fit, Call_forecast 5],
        Inr [Fin 107, Fin 107, Fin 107, Fin 107, Fin 107])"
  by (simp add: forecaster_def comp_simps demo_fit_def numeral_eq_Suc)

lemma demo_dates:
  "tl (date_range_B 738895 (5 + 1)) = [738896, 738897, 738900, 738901, 738902]"
  by code_simp

lemma demo_run_none:
  "run (demo_lib p) (demo_query ''NONE'' h) =
     ([Call_download ''NONE'' 738886 738900, St_error NO_DATA_MSG], Inr No_data)"
  using run_no_data [of "demo_lib p" "demo_query ''NONE'' h"] by simp

lemma demo_run_one:
  "run (demo_lib p) (demo_query ''ONE'' h) =
     ([Call_download ''ONE'' 738886 738900, St_subheader ADF_HEADER, Call_adfuller [Fin 100]],
      Inl TOO_SHORT)"
  using run_adfuller_raises [of "demo_lib p" "demo_query ''ONE'' h" TOO_SHORT]
  by (simp add: dropna_def demo_adfuller_def mk_row_def)


lemma demo_run_long:
  "snd (run (demo_lib p) (demo_query ''LONG'' 5)) =
     Inr (Rendered [Fin 107, Fin 107, Fin 107, Fin 107, Fin 107]
            [738896, 738897, 738900, 738901, 738902])"
proof -
  let ?c = "[Fin 100, Fin 101, Fin 102, Fin 103, Fin 104, Fin 105, Fin 106, Fin 107]"
  let ?r = "\<lparr> adfstat = Fin 0, pvalue = p, usedlag = 0, nobs = 7 \<rparr>"
  have a: "adfuller (demo_lib p) (dropna ?c) = Inr ?r"
    by (simp add: dropna_def demo_adfuller_def)
  have "forecaster (demo_lib p) ?c 5 =
          ([Call_ARIMA ?c (5, 0, 0), Call_fit, Call_forecast 5], Inr (replicate 5 (Fin 107)))"
    by (rule trans [OF forecaster_fitted [where m = ?c and f = "Fin 107"]])
       (simp_all add: demo_fit_def)
  then have f: "snd (forecaster (demo_lib p) ?c 5) =
      Inr [Fin 107, Fin 107, Fin 107, Fin 107, Fin 107]"
    by (simp add: numeral_eq_Suc)
  show ?thesis
    using run_rendered [of "demo_lib p" "demo_query ''LONG'' 5" ?r
        "[Fin 107, Fin 107, Fin 107, Fin 107, Fin 107]"] a f demo_dates
    by simp
qed

section \<open>The claims\<close>

subsection \<open>C1: an empty table ends the run with one error message\<close>

text \<open>
  Claim C1. If the fetched table is empty, the run consists of the download and the single
  error message \<^verbatim>\<open>No data found. Check stock symbol.\<close> and ends normally: no
  stationarity check, no model, no forecast, no chart and no table. Conversely, any step
  other than the download and the error message occurs only in a run whose table is not
  empty.
\<close>

theorem empty_series_short_circuits:
  "(fetched lib q = [] \<longrightarrow>
      run lib q =
        ([Call_download (ticker q) (start_date q) (end_date q), St_error NO_DATA_MSG],
         Inr No_data))
   \<and> ((\<exists>ev \<in> set (fst (run lib q)). is_pipeline_step ev) \<longrightarrow> fetched lib q \<noteq> [])"
proof -
  have "\<not> (\<exists>ev \<in> set (fst (run lib q)). is_pipeline_step ev)" if "fetched lib q = []"
    using run_no_data [OF that] by simp
  then show ?thesis using run_no_data [of lib q] by blast
qed

theorem empty_series_short_circuits_witness:
  "fetched (demo_lib (Fin (1/2))) (demo_query ''NONE'' 10) = []
   \<and> run (demo_lib (Fin (1/2))) (demo_query ''NONE'' 10) =
       ([Call_download ''NONE'' 738886 738900, St_error NO_DATA_MSG], Inr No_data)
   \<and> St_subheader ADF_HEADER \<in> set (fst (run (demo_lib (Fin (1/2))) (demo_query ''ONE'' 10)))
   \<and> is_pipeline_step (St_subheader ADF_HEADER)
   \<and> fetched (demo_lib (Fin (1/2))) (demo_query ''ONE'' 10) \<noteq> []"
  using empty_series_short_circuits [of "demo_lib (Fin (1/2))" "demo_query ''NONE'' 10"]
    empty_series_short_circuits [of "demo_lib (Fin (1/2))" "demo_query ''ONE'' 10"]
  by (simp add: demo_run_one)

subsection \<open>C2: as many forecasts and dates as the horizon\<close>

text \<open>
  Claim C2. For every horizon (in particular those from 5 to 60 that the number input
  allows) and every non-empty table on whose closing prices the stationarity test
  returns and the model is built, fitted and forecast, the run completes, the forecast
  has exactly \<open>forecast_days\<close> entries and the forecast dates are exactly
  \<open>forecast_days\<close> dates. The number of forecast values is what the library returns
  for \<^verbatim>\<open>steps\<close>, assumed as \<open>forecast_returns_steps\<close>; the number of dates is
  the script's own: \<open>forecast_days + 1\<close> periods less the first.
\<close>

theorem forecast_has_horizon_entries:
  assumes "forecast_returns_steps lib"
    and "fetched lib q \<noteq> []"
    and "adfuller lib (dropna (map Close (fetched lib q))) = Inr r"
    and "snd (forecaster lib (map Close (fetched lib q)) (forecast_days q)) = Inr fc"
  shows "\<exists>fdates. snd (run lib q) = Inr (Rendered fc fdates)
           \<and> length fc = forecast_days q \<and> length fdates = forecast_days q"
proof -
  let ?c = "map Close (fetched lib q)" and ?h = "forecast_days q"
  let ?ds = "tl (date_range_B (Date (last (fetched lib q))) (?h + 1))"
  have "\<exists>f. forecast lib f ?h = Inr fc"
    using forecaster_cases [of lib ?c ?h] assms(4) by auto
  then have "length fc = ?h"
    using assms(1) by (auto simp: forecast_returns_steps_def)
  moreover have "length ?ds = ?h"
    by (rule length_tl_date_range_B)
  moreover have "snd (run lib q) = Inr (Rendered fc ?ds)"
    using run_rendered [OF assms(2,3,4)] by simp
  ultimately show ?thesis by blast
qed

theorem forecast_has_horizon_entries_witness:
  "forecast_returns_steps (demo_lib (Fin (1/2)))
   \<and> fetched (demo_lib (Fin (1/2))) (demo_query ''LONG'' 5) \<noteq> []
   \<and> snd (forecaster (demo_lib (Fin (1/2)))
             (map Close (fetched (demo_lib (Fin (1/2))) (demo_query ''LONG'' 5))) 5)
       = Inr [Fin 107, Fin 107, Fin 107, Fin 107, Fin 107]
   \<and> (\<exists>fdates. snd (run (demo_lib (Fin (1/2))) (demo_query ''LONG'' 5))
                  = Inr (Rendered [Fin 107, Fin 107, Fin 107, Fin 107, Fin 107] fdates)
          \<and> length fdates = 5)"
proof -
  have c: "forecast_returns_steps (demo_lib (Fin (1/2)))"
    by (simp add: forecast_returns_steps_def)
  show ?thesis
    using c forecast_has_horizon_entries [of "demo_lib (Fin (1/2))" "demo_query ''LONG'' 5"
        "\<lparr> adfstat = Fin 0, pvalue = Fin (1/2), usedlag = 0, nobs = 7 \<rparr>"
        "[Fin 107, Fin 107, Fin 107, Fin 107, Fin 107]"]
    by (simp add: demo_adfuller_long demo_forecaster_long)
qed

subsection \<open>C3: the forecast dates are later weekdays, in order\<close>

text \<open>
  Claim C3. For every non-empty table and every horizon the forecast dates are computed
  without error, are strictly increasing, are all strictly after the last historical
  date, and are all weekdays (Monday to Friday).
\<close>

theorem forecast_dates_business_days:
  assumes "df \<noteq> []"
  shows "\<exists>ds. snd (forecast_dates df h) = Inr ds
           \<and> sorted_wrt (<) ds
           \<and> (\<forall>d \<in> set ds. Date (last df) < d \<and> weekday d < 5)"
proof -
  let ?s = "Date (last df)"
  let ?ds = "tl (date_range_B ?s (h + 1))"
  have "snd (forecast_dates df h) = Inr ?ds"
    using forecast_dates_eq [OF assms, of h] by simp
  moreover have "sorted_wrt (<) ?ds"
    by (rule tl_date_range_B_increasing)
  moreover have "?s < d \<and> weekday d < 5" if "d \<in> set ?ds" for d
  proof
    show "?s < d" using that tl_date_range_B_after [of d ?s h] by simp
    show "weekday d < 5" using that by (rule tl_date_range_B_weekday)
  qed
  ultimately show ?thesis by blast
qed

theorem forecast_dates_business_days_witness:
  "long_rows \<noteq> []
   \<and> Date (last long_rows) = 738895
   \<and> snd (forecast_dates long_rows 5) = Inr [738896, 738897, 738900, 738901, 738902]
   \<and> (\<exists>ds. snd (forecast_dates long_rows 5) = Inr ds \<and> sorted_wrt (<) ds)
   \<and> map weekday [738896, 738897, 738900, 738901, 738902] = [3, 4, 0, 1, 2]"
  using forecast_dates_business_days [of long_rows 5] forecast_dates_eq [of long_rows 5]
    demo_dates
  by (auto simp: weekday_def)

subsection \<open>C4: the threshold of the stationarity check\<close>

text \<open>
  Claim C4. The checker passes the series without its missing values to the ADF test,
  and when the test returns, it answers with the message for a stationary series exactly
  when the p-value is a number strictly below 0.05, and with the message for a
  non-stationary series otherwise, so for every p-value of at least 0.05, 0.05 itself
  included.
\<close>

theorem stationarity_threshold:
  assumes "adfuller lib (dropna s) = Inr r"
  shows "fst (check_stationarity lib s) = [Call_adfuller (filter (\<lambda>x. x \<noteq> NaN) s)]
    \<and> (snd (check_stationarity lib s) = Inr STATIONARY_MSG
          \<longleftrightarrow> (\<exists>p. pvalue r = Fin p \<and> p < 0.05))
    \<and> (snd (check_stationarity lib s) = Inr NOT_STATIONARY_MSG
          \<longleftrightarrow> \<not> (\<exists>p. pvalue r = Fin p \<and> p < 0.05))
    \<and> (\<forall>p. pvalue r = Fin p \<and> 0.05 \<le> p
          \<longrightarrow> snd (check_stationarity lib s) = Inr NOT_STATIONARY_MSG)"
proof -
  have lt: "float_lt (pvalue r) (Fin 0.05) \<longleftrightarrow> (\<exists>p. pvalue r = Fin p \<and> p < 0.05)"
    by (cases "pvalue r") (simp_all add: float_lt_def)
  have "check_stationarity lib s = ([Call_adfuller (dropna s)], Inr (verdict r))"
    using assms by (rule check_stationarity_returns)
  then show ?thesis
    using lt messages_differ by (auto simp: verdict_def dropna_def)
qed

theorem stationarity_threshold_witness:
  "adfuller (demo_lib (Fin 0.05)) (dropna [Fin 1, NaN, Fin 2, Fin 3, Fin 4])
     = Inr \<lparr> adfstat = Fin 0, pvalue = Fin 0.05, usedlag = 0, nobs = 3 \<rparr>
   \<and> fst (check_stationarity (demo_lib (Fin 0.05)) [Fin 1, NaN, Fin 2, Fin 3, Fin 4])
       = [Call_adfuller [Fin 1, Fin 2, Fin 3, Fin 4]]
   \<and> snd (check_stationarity (demo_lib (Fin 0.05)) [Fin 1, NaN, Fin 2, Fin 3, Fin 4])
       = Inr NOT_STATIONARY_MSG"
proof -
  have a: "adfuller (demo_lib (Fin 0.05)) (dropna [Fin 1, NaN, Fin 2, Fin 3, Fin 4])
     = Inr \<lparr> adfstat = Fin 0, pvalue = Fin 0.05, usedlag = 0, nobs = 3 \<rparr>"
    by (simp add: dropna_def demo_adfuller_def)
  show ?thesis
    using a stationarity_threshold [OF a] by simp
qed

subsection \<open>C5: a failing stationarity test is not handled\<close>




subsection \<open>C6: a failing fit is not handled, and not retried\<close>




subsection \<open>C7: the same inputs give the same forecast\<close>



subsection \<open>C8: the order of the model is always (5, 0, 0)\<close>



subsection \<open>C9: a failed run keeps what it had already shown\<close>




subsection \<open>C10: the forecast depends on the closing prices and the horizon only\<close>

text \<open>
  Claim C10. Two runs against the same library whose tables have the same column of
  closing prices and whose horizons are equal end with the same forecast values, or both
  with none, whatever their tickers, date ranges, dates and other columns are.
\<close>

theorem forecast_depends_on_close_only:
  assumes "map Close (fetched lib q1) = map Close (fetched lib q2)"
    and "forecast_days q1 = forecast_days q2"
  shows "forecast_values (run lib q1) = forecast_values (run lib q2)"
proof -
  have "fetched lib q1 = [] \<longleftrightarrow> fetched lib q2 = []"
    using assms(1) by (metis map_is_Nil_conv)
  then show ?thesis
    using assms by (simp add: forecast_values_run cong: sum.case_cong)
qed

theorem forecast_depends_on_close_only_witness:
  "map Close (fetched (demo_lib (Fin (1/2))) (demo_query ''LONG'' 5))
     = map Close (fetched (demo_lib (Fin (1/2))) (demo_query ''OTHER'' 5))
   \<and> map Date (fetched (demo_lib (Fin (1/2))) (demo_query ''LONG'' 5))
       \<noteq> map Date (fetched (demo_lib (Fin (1/2))) (demo_query ''OTHER'' 5))
   \<and> map Open (fetched (demo_lib (Fin (1/2))) (demo_query ''LONG'' 5))
       \<noteq> map Open (fetched (demo_lib (Fin (1/2))) (demo_query ''OTHER'' 5))
   \<and> forecast_values (run (demo_lib (Fin (1/2))) (demo_query ''OTHER'' 5))
       = Some [Fin 107, Fin 107, Fin 107, Fin 107, Fin 107]"
proof -
  have v: "forecast_values (run (demo_lib (Fin (1/2))) (demo_query ''LONG'' 5))
       = Some [Fin 107, Fin 107, Fin 107, Fin 107, Fin 107]"
    by (simp add: forecast_values_def demo_run_long)
  have "map Date long_rows \<noteq> map Date other_rows" "map Open long_rows \<noteq> map Open other_rows"
    by (simp_all add: long_rows_def other_rows_def mk_row_def)
  then show ?thesis
    using v forecast_depends_on_close_only [of "demo_lib (Fin (1/2))" "demo_query ''LONG'' 5"
        "demo_query ''OTHER'' 5"]
    by simp
qed

end
